theory Spec2Isabelle
  imports Complex_Main "HOL-Library.Sublist"
begin

section \<open>Errors and strings\<close>

text \<open>
  A value thrown by JavaScript code. \<open>Error m\<close> is an instance of \<^verbatim>\<open>Error\<close> (or of a
  subclass) with message \<open>m\<close>. \<open>Thrown s p\<close> is any other thrown value: \<open>s\<close> is what
  \<^verbatim>\<open>String(err)\<close> gives for it and \<open>p\<close> its \<^verbatim>\<open>message\<close> property rendered in a template
  literal, when it has one.
\<close>

datatype js_error = Error string | Thrown string "string option"

text \<open>\<^verbatim>\<open>getErrorMessage\<close>: the message of an \<^verbatim>\<open>Error\<close>, \<^verbatim>\<open>String(err)\<close> otherwise.\<close>

fun getErrorMessage :: "js_error \<Rightarrow> string" where
  "getErrorMessage (Error m) = m"
| "getErrorMessage (Thrown s p) = s"

text \<open>
  \<^verbatim>\<open>(error as Error).message\<close> inside a template literal: the cast checks nothing at run
  time, so a thrown value without the property renders as \<^verbatim>\<open>undefined\<close>.
\<close>

fun message_of :: "js_error \<Rightarrow> string" where
  "message_of (Error m) = m"
| "message_of (Thrown s None) = ''undefined''"
| "message_of (Thrown s (Some m)) = m"

text \<open>
  Strings are lists of bytes. \<^verbatim>\<open>toLowerCase\<close> is modelled on the ASCII letters, which is
  where every pattern of the classifier lives.
\<close>

definition lower_char :: "char \<Rightarrow> char" where
  "lower_char c =
     (case map_of (zip ''ABCDEFGHIJKLMNOPQRSTUVWXYZ'' ''abcdefghijklmnopqrstuvwxyz'') c of
        None \<Rightarrow> c
      | Some d \<Rightarrow> d)"

definition toLowerCase :: "string \<Rightarrow> string" where
  "toLowerCase s = map lower_char s"

text \<open>\<^verbatim>\<open>s.includes(p)\<close>: \<open>p\<close> occurs in \<open>s\<close> as a contiguous run.\<close>

fun str_includes :: "string \<Rightarrow> string \<Rightarrow> bool" where
  "str_includes [] p = (p = [])"
| "str_includes (c # cs) p = (prefix p (c # cs) \<or> str_includes cs p)"

definition isExpectedReadFailure :: "js_error \<Rightarrow> bool" where
  "isExpectedReadFailure err =
     (let msg = toLowerCase (getErrorMessage err) in
        str_includes msg ''returned no data'' \<or>
        str_includes msg ''no data (0x)'' \<or>
        (str_includes msg ''contract'' \<and> (str_includes msg ''not deployed'' \<or> str_includes msg ''could not be found'')) \<or>
        str_includes msg ''no logs'' \<or>
        str_includes msg ''no events'' \<or>
        (str_includes msg ''pool'' \<and> str_includes msg ''not instantiated'') \<or>
        (str_includes msg ''execution reverted'' \<and> (str_includes msg ''0x'' \<or> str_includes msg ''no data'')))"

section \<open>Big integers and their strings\<close>

text \<open>
  A \<^verbatim>\<open>bigint\<close> is an \<open>int\<close>. \<^verbatim>\<open>bigint.toString()\<close> writes it in decimal, with a minus
  sign when it is negative.
\<close>

definition digit_char :: "int \<Rightarrow> char" where
  "digit_char d = ''0123456789'' ! nat (d mod 10)"

function digits :: "int \<Rightarrow> string" where
  "digits n = (if n < 10 then [digit_char n] else digits (n div 10) @ [digit_char (n mod 10)])"
  by pat_completeness auto
termination
  by (relation "measure nat") auto

declare digits.simps [simp del]

definition bigint_toString :: "int \<Rightarrow> string" where
  "bigint_toString i = (if i < 0 then CHR ''-'' # digits (- i) else digits i)"

text \<open>
  \<^verbatim>\<open>BigInt(s)\<close> on a string: surrounding ASCII white space is dropped, the empty string
  is zero, a decimal literal may carry a sign, and \<^verbatim>\<open>0x\<close>, \<^verbatim>\<open>0o\<close>, \<^verbatim>\<open>0b\<close> literals are
  read in their radix. Anything else throws a \<^verbatim>\<open>SyntaxError\<close>.
\<close>

definition digit_val :: "char \<Rightarrow> int" where
  "digit_val c =
     (case map_of (zip ''0123456789abcdef'' [0, 1, 2, 3, 4, 5, 6, 7, 8, 9, 10, 11, 12, 13, 14, 15]) (lower_char c) of
        None \<Rightarrow> 16
      | Some d \<Rightarrow> d)"

definition is_radix_literal :: "int \<Rightarrow> string \<Rightarrow> bool" where
  "is_radix_literal b s = (s \<noteq> [] \<and> list_all (\<lambda>c. digit_val c < b) s)"

definition radix_val :: "int \<Rightarrow> string \<Rightarrow> int" where
  "radix_val b s = foldl (\<lambda>a c. a * b + digit_val c) 0 s"

definition is_space :: "char \<Rightarrow> bool" where
  "is_space c = (c \<in> set [CHR '' '', CHR 0x09, CHR 0x0A, CHR 0x0B, CHR 0x0C, CHR 0x0D])"

definition trim :: "string \<Rightarrow> string" where
  "trim s = rev (dropWhile is_space (rev (dropWhile is_space s)))"

definition BigInt :: "string \<Rightarrow> js_error + int" where
  "BigInt s =
     (let t = trim s; bad = Inl (Error (''Cannot convert '' @ s @ '' to a BigInt'')) in
      if t = [] then Inr 0
      else if take 2 t \<in> set [''0x'', ''0X''] then
        (if is_radix_literal 16 (drop 2 t) then Inr (radix_val 16 (drop 2 t)) else bad)
      else if take 2 t \<in> set [''0o'', ''0O''] then
        (if is_radix_literal 8 (drop 2 t) then Inr (radix_val 8 (drop 2 t)) else bad)
      else if take 2 t \<in> set [''0b'', ''0B''] then
        (if is_radix_literal 2 (drop 2 t) then Inr (radix_val 2 (drop 2 t)) else bad)
      else if hd t = CHR ''-'' then
        (if is_radix_literal 10 (tl t) then Inr (- radix_val 10 (tl t)) else bad)
      else if hd t = CHR ''+'' then
        (if is_radix_literal 10 (tl t) then Inr (radix_val 10 (tl t)) else bad)
      else if is_radix_literal 10 t then Inr (radix_val 10 t)
      else bad)"

section \<open>Numbers\<close>

text \<open>
  A JavaScript \<^verbatim>\<open>number\<close> is a binary64 value: a finite value is the rational it denotes,
  and there are the two infinities and \<^verbatim>\<open>NaN\<close>. The sign of zero is not tracked: the model
  has one zero. Every arithmetic operation computes the exact result and rounds it to the
  nearest binary64 value, ties to even, as IEEE 754 prescribes.
\<close>

datatype number = Finite rat | PosInf | NegInf | NaN

text \<open>The number of digits of a positive integer in base \<open>b\<close>.\<close>

function ndigits :: "int \<Rightarrow> int \<Rightarrow> int" where
  "ndigits b n = (if n \<le> 0 \<or> b \<le> 1 then 0 else 1 + ndigits b (n div b))"
  by pat_completeness auto
termination
proof (relation "measure (\<lambda>(b, n). nat n)")
  show "wf (measure (\<lambda>(b, n). nat n))" by simp
next
  fix b n :: int
  assume "\<not> (n \<le> 0 \<or> b \<le> 1)"
  then have "n div b < n" by (simp add: int_div_less_self)
  then show "((b, n div b), (b, n)) \<in> measure (\<lambda>(b, n). nat n)"
    using \<open>\<not> (n \<le> 0 \<or> b \<le> 1)\<close> by simp
qed

declare ndigits.simps [simp del]

text \<open>
  \<open>ilog b q\<close> is the integer part of the base-\<open>b\<close> logarithm of a positive rational:
  \<open>b\<^sup>d \<le> q < b\<^sup>d\<^sup>+\<^sup>1\<close>. The digit counts of numerator and denominator fix it up to one.
\<close>

definition ilog :: "int \<Rightarrow> rat \<Rightarrow> int" where
  "ilog b q =
     (let d = ndigits b (fst (quotient_of q)) - ndigits b (snd (quotient_of q))
      in if power_int (of_int b) d \<le> q then d else d - 1)"

definition round_even :: "rat \<Rightarrow> int" where
  "round_even q =
     (let f = \<lfloor>q\<rfloor>; r = q - of_int f
      in if r < 1 / 2 then f else if 1 / 2 < r then f + 1 else if even f then f else f + 1)"

text \<open>
  Rounding to binary64. The unit in the last place of \<open>q\<close> is \<open>2\<^sup>e\<close>, where \<open>e\<close> is 52 below
  the binary exponent of \<open>q\<close> and never below \<open>-1074\<close> (the subnormal range); \<open>m\<close> is the
  significand, rounded. The rounded value overflows to an infinity when its binary exponent
  exceeds 1023.
\<close>

definition fl :: "rat \<Rightarrow> number" where
  "fl q =
     (if q = 0 then Finite 0
      else
        let e = max (ilog 2 \<bar>q\<bar> - 52) (- 1074);
            m = round_even (\<bar>q\<bar> / power_int 2 e);
            top = e + 52 + (if 2 ^ 53 \<le> m then 1 else 0)
        in if 1023 < top then (if 0 < q then PosInf else NegInf)
           else Finite (sgn q * of_int m * power_int 2 e))"

fun num_neg :: "number \<Rightarrow> number" where
  "num_neg (Finite a) = Finite (- a)"
| "num_neg PosInf = NegInf"
| "num_neg NegInf = PosInf"
| "num_neg NaN = NaN"

fun num_add :: "number \<Rightarrow> number \<Rightarrow> number" where
  "num_add (Finite a) (Finite b) = fl (a + b)"
| "num_add NaN y = NaN"
| "num_add x NaN = NaN"
| "num_add PosInf NegInf = NaN"
| "num_add NegInf PosInf = NaN"
| "num_add PosInf y = PosInf"
| "num_add NegInf y = NegInf"
| "num_add x PosInf = PosInf"
| "num_add x NegInf = NegInf"

definition num_sub :: "number \<Rightarrow> number \<Rightarrow> number" where
  "num_sub x y = num_add x (num_neg y)"

text \<open>The sign of a number as \<open>-1\<close>, \<open>0\<close> or \<open>1\<close>; zero is positive where a sign is needed.\<close>

fun num_sgn :: "number \<Rightarrow> int" where
  "num_sgn (Finite a) = (if a < 0 then - 1 else if a = 0 then 0 else 1)"
| "num_sgn PosInf = 1"
| "num_sgn NegInf = - 1"
| "num_sgn NaN = 0"

definition signed_inf :: "int \<Rightarrow> number" where
  "signed_inf s = (if s < 0 then NegInf else PosInf)"

fun num_mul :: "number \<Rightarrow> number \<Rightarrow> number" where
  "num_mul (Finite a) (Finite b) = fl (a * b)"
| "num_mul NaN y = NaN"
| "num_mul x NaN = NaN"
| "num_mul x y = (if num_sgn x * num_sgn y = 0 then NaN else signed_inf (num_sgn x * num_sgn y))"

fun num_div :: "number \<Rightarrow> number \<Rightarrow> number" where
  "num_div (Finite a) (Finite b) =
     (if b = 0 then (if a = 0 then NaN else signed_inf (num_sgn (Finite a))) else fl (a / b))"
| "num_div NaN y = NaN"
| "num_div x NaN = NaN"
| "num_div (Finite a) y = Finite 0"
| "num_div x (Finite b) = signed_inf (num_sgn x * (if b < 0 then - 1 else 1))"
| "num_div x y = NaN"



text \<open>
  \<^verbatim>\<open>Number(s)\<close> on a string: surrounding ASCII white space is dropped, the empty string is
  zero, radix literals are read in their radix, and a decimal literal is an optional sign,
  then \<^verbatim>\<open>Infinity\<close> or digits with an optional fraction and an optional exponent. Anything
  else is \<^verbatim>\<open>NaN\<close>. The value read is rounded to binary64.
\<close>

definition is_digit :: "char \<Rightarrow> bool" where
  "is_digit c = (digit_val c < 10)"

definition parse_exponent :: "string \<Rightarrow> int option" where
  "parse_exponent s =
     (if s \<noteq> [] \<and> hd s = CHR ''-'' then
        (if is_radix_literal 10 (tl s) then Some (- radix_val 10 (tl s)) else None)
      else if s \<noteq> [] \<and> hd s = CHR ''+'' then
        (if is_radix_literal 10 (tl s) then Some (radix_val 10 (tl s)) else None)
      else if is_radix_literal 10 s then Some (radix_val 10 s)
      else None)"

definition parse_decimal :: "string \<Rightarrow> rat option" where
  "parse_decimal s =
     (let ip = takeWhile is_digit s;
          r1 = dropWhile is_digit s;
          dot = (r1 \<noteq> [] \<and> hd r1 = CHR ''.'');
          fp = (if dot then takeWhile is_digit (tl r1) else []);
          r2 = (if dot then dropWhile is_digit (tl r1) else r1);
          ex = (if r2 = [] then Some 0
                else if hd r2 \<in> set ''eE'' then parse_exponent (tl r2)
                else None)
      in if ip = [] \<and> fp = [] then None
         else case ex of
                None \<Rightarrow> None
              | Some x \<Rightarrow> Some (of_int (radix_val 10 (ip @ fp)) * power_int 10 (x - int (length fp))))"

definition Number :: "string \<Rightarrow> number" where
  "Number s =
     (let t = trim s in
      if t = [] then Finite 0
      else if take 2 t \<in> set [''0x'', ''0X''] then
        (if is_radix_literal 16 (drop 2 t) then fl (of_int (radix_val 16 (drop 2 t))) else NaN)
      else if take 2 t \<in> set [''0o'', ''0O''] then
        (if is_radix_literal 8 (drop 2 t) then fl (of_int (radix_val 8 (drop 2 t))) else NaN)
      else if take 2 t \<in> set [''0b'', ''0B''] then
        (if is_radix_literal 2 (drop 2 t) then fl (of_int (radix_val 2 (drop 2 t))) else NaN)
      else
        let neg = (hd t = CHR ''-'');
            u = (if hd t \<in> set ''+-'' then tl t else t)
        in if u = ''Infinity'' then (if neg then NegInf else PosInf)
           else case parse_decimal u of
                  None \<Rightarrow> NaN
                | Some q \<Rightarrow> fl (if neg then - q else q))"






section \<open>Unit conversion\<close>







section \<open>The client and the ledger it reads\<close>

text \<open>
  Integers that stay integers in the source (unsigned contract values, block numbers,
  counts, \<^verbatim>\<open>Date.now()\<close> and block times in milliseconds) are \<open>int\<close>: the doubles that carry
  some of them are exact below \<open>2\<^sup>5\<^sup>3\<close>. Fractional arithmetic goes through \<open>number\<close>.
\<close>

type_synonym address = string

record Token =
  address :: address
  symbol :: "string option"
  name :: "string option"
  decimals :: "int option"

record LiquidityPoolToken = Token +
  totalSupply :: string
  balance :: string

record Reserve =
  tokenReserve :: string
  ethReserve :: string

text \<open>The raw logs of the three trade events, as \<^verbatim>\<open>getLogs\<close> decodes them.\<close>

record BuyTradeLog =
  blockNumber :: int
  token :: address
  trader :: address
  amountEther :: int
  amountToken :: int
  tradeBuyPrice :: int
  updatedBuyPrice :: int
  sellPrice :: int

record SellTradeLog =
  blockNumber :: int
  token :: address
  trader :: address
  amountToken :: int
  amountEther :: int
  tradeSellPrice :: int
  updatedSellPrice :: int
  buyPrice :: int

record SwapTradeLog =
  blockNumber :: int
  tokenSold :: address
  tokenBought :: address
  trader :: address
  amountTokenSold :: int
  amountTokenBought :: int
  tradeSellPrice :: int
  updatedSellPrice :: int
  tradeBuyPrice :: int
  updatedBuyPrice :: int

text \<open>
  The ledger-read handle (\<^verbatim>\<open>publicClient\<close>) as the answers it gives. Each read either
  throws (\<open>Inl\<close>) or resolves (\<open>Inr\<close>), possibly to \<^verbatim>\<open>undefined\<close> (\<open>None\<close>). The ledger
  is a snapshot: asked the same read twice, it gives the same answer.
  \<open>rd_reserves\<close> answers the contract's tuple in its order; \<open>rd_pools\<close> answers component 2
  of the contract's tuple, the only one the client reads; \<open>rd_getPoolFeeList\<close> answers
  pairs of a timestamp in seconds and a fee; \<open>getBlock\<close> answers the block's timestamp in
  seconds. A log query carries the block range and the filter on the indexed arguments.
\<close>

record ledger =
  rd_poolToken :: "address \<Rightarrow> js_error + address option"
  rd_reserves :: "address \<Rightarrow> js_error + (int \<times> int) option"
  rd_priceBuy :: "address \<Rightarrow> js_error + int option"
  rd_priceSell :: "address \<Rightarrow> js_error + int option"
  rd_tokenPerETHRatio :: "address \<Rightarrow> js_error + int option"
  rd_pools :: "address \<Rightarrow> js_error + int option"
  rd_getPoolFeeEventsCount :: "address \<Rightarrow> js_error + int option"
  rd_getPoolFeeList :: "address \<Rightarrow> int \<Rightarrow> int \<Rightarrow> js_error + (int \<times> int) list option"
  erc20_decimals :: "address \<Rightarrow> js_error + int option"
  erc20_symbol :: "address \<Rightarrow> js_error + string option"
  erc20_name :: "address \<Rightarrow> js_error + string option"
  erc20_totalSupply :: "address \<Rightarrow> js_error + int option"
  erc20_balanceOf :: "address \<Rightarrow> address \<Rightarrow> js_error + int option"
  getBlockNumber :: "js_error + int"
  getBlock :: "int \<Rightarrow> js_error + int option"
  getLogs_BuyTrade :: "int \<Rightarrow> int \<Rightarrow> address option \<Rightarrow> address option
    \<Rightarrow> js_error + BuyTradeLog list option"
  getLogs_SellTrade :: "int \<Rightarrow> int \<Rightarrow> address option \<Rightarrow> address option
    \<Rightarrow> js_error + SellTradeLog list option"
  getLogs_SwapTrade :: "int \<Rightarrow> int \<Rightarrow> address option \<Rightarrow> address option \<Rightarrow> address option
    \<Rightarrow> js_error + SwapTradeLog list option"

text \<open>
  One call of the transaction-submission interface: target, function name, arguments
  (addresses and integers rendered as strings) and the attached native value.
\<close>

datatype write_call = WriteCall address string "string list" "int option"

text \<open>
  The wallet answers a call with a transaction hash or throws; its answer may depend on
  the calls made before.
\<close>

type_synonym wallet = "write_call list \<Rightarrow> write_call \<Rightarrow> js_error + string"

text \<open>A call that leaves the process: a read of the ledger (by what it asks) or a wallet call.\<close>

datatype network_call = LedgerRead string | WalletCall write_call

record client =
  contractAddress :: address
  writeContract :: wallet
  publicClient :: "ledger option"
  chainId :: int

definition UNSUPPORTED_CHAIN :: string where
  "UNSUPPORTED_CHAIN = ''UNSUPPORTED_CHAIN''"

definition PUBLIC_CLIENT_UNAVAILABLE :: string where
  "PUBLIC_CLIENT_UNAVAILABLE = ''PUBLIC_CLIENT_UNAVAILABLE''"

text \<open>
  The constructor. \<open>addrs\<close> is the imported table \<^verbatim>\<open>CONTRACT_ADDRESSES\<close>, whose
  declaration is not part of the sources; it is a parameter here and in every function
  that consults it. The second component of the result lists the network calls the
  constructor issues: it looks up the table and assigns fields, and calls nothing.
\<close>

definition ContractClient :: "(int \<rightharpoonup> address) \<Rightarrow> wallet \<Rightarrow> ledger option \<Rightarrow> int option
    \<Rightarrow> (js_error + client) \<times> network_call list" where
  "ContractClient addrs wc pc cid =
     (let c = (case cid of None \<Rightarrow> 63 | Some n \<Rightarrow> n) in
      case addrs c of
        None \<Rightarrow> (Inl (Error UNSUPPORTED_CHAIN), [])
      | Some addr \<Rightarrow>
          (Inr \<lparr>contractAddress = addr, writeContract = wc, publicClient = pc, chainId = c\<rparr>, []))"

definition ensureCanRead :: "(int \<rightharpoonup> address) \<Rightarrow> client \<Rightarrow> js_error + unit" where
  "ensureCanRead addrs c =
     (if addrs (chainId c) = None then Inl (Error UNSUPPORTED_CHAIN)
      else if publicClient c = None then Inl (Error PUBLIC_CLIENT_UNAVAILABLE)
      else Inr ())"

text \<open>
  \<^verbatim>\<open>safeRead\<close>. \<open>fn\<close> is the outcome of the wrapped read; it is looked at only after the
  guard has passed, as the source calls \<^verbatim>\<open>fn\<close> only then.
\<close>

definition safeRead :: "(int \<rightharpoonup> address) \<Rightarrow> client \<Rightarrow> string \<Rightarrow> 'a \<Rightarrow> (js_error + 'a) \<Rightarrow> js_error + 'a" where
  "safeRead addrs c methodName fallback fn =
     (case ensureCanRead addrs c of
        Inl e \<Rightarrow> Inl e
      | Inr u \<Rightarrow>
          (case fn of
             Inr v \<Rightarrow> Inr v
           | Inl e \<Rightarrow> if isExpectedReadFailure e then Inr fallback else Inl e))"

text \<open>
  \<^verbatim>\<open>const x = await m; ...\<close>: a rejection of \<open>m\<close> ends the sequence. \<open>catch_wrap p m\<close> is
  \<^verbatim>\<open>try { m } catch (error) { throw new Error(p + (error as Error).message) }\<close>.
  \<^verbatim>\<open>Promise.all\<close> over a list resolves to the list of results or rejects; the model takes
  the first rejection in list order (at run time it is the first in time).
\<close>

definition await :: "(js_error + 'a) \<Rightarrow> ('a \<Rightarrow> js_error + 'b) \<Rightarrow> js_error + 'b" where
  "await m f = (case m of Inl e \<Rightarrow> Inl e | Inr x \<Rightarrow> f x)"

definition catch_wrap :: "string \<Rightarrow> (js_error + 'a) \<Rightarrow> js_error + 'a" where
  "catch_wrap p m = (case m of Inl e \<Rightarrow> Inl (Error (p @ message_of e)) | Inr x \<Rightarrow> Inr x)"

fun Promise_all :: "(js_error + 'a) list \<Rightarrow> js_error + 'a list" where
  "Promise_all [] = Inr []"
| "Promise_all (m # ms) =
     (case m of
        Inl e \<Rightarrow> Inl e
      | Inr x \<Rightarrow> (case Promise_all ms of Inl e \<Rightarrow> Inl e | Inr xs \<Rightarrow> Inr (x # xs)))"

text \<open>
  A read through \<^verbatim>\<open>this.publicClient!\<close>: the assertion checks nothing at run time, and a
  missing handle makes the property access throw a \<^verbatim>\<open>TypeError\<close>. A read through
  \<^verbatim>\<open>this.publicClient?.\<close> resolves to \<^verbatim>\<open>undefined\<close> when the handle is missing.
\<close>

definition undefined_access :: "string \<Rightarrow> js_error" where
  "undefined_access p =
     Error (''Cannot read properties of undefined (reading '' @ [CHR 0x27] @ p @ [CHR 0x27] @ '')'')"

definition with_ledger :: "client \<Rightarrow> string \<Rightarrow> (ledger \<Rightarrow> js_error + 'a) \<Rightarrow> js_error + 'a" where
  "with_ledger c p f =
     (case publicClient c of
        None \<Rightarrow> Inl (undefined_access p)
      | Some l \<Rightarrow> f l)"

definition opt_ledger :: "client \<Rightarrow> (ledger \<Rightarrow> js_error + 'a option) \<Rightarrow> js_error + 'a option" where
  "opt_ledger c f =
     (case publicClient c of
        None \<Rightarrow> Inr None
      | Some l \<Rightarrow> f l)"

section \<open>Metadata and state reads\<close>

definition ZERO_ADDRESS :: address where
  "ZERO_ADDRESS = ''0x0000000000000000000000000000000000000000''"

text \<open>\<^verbatim>\<open>isPoolInstantiated\<close>: a non-empty string is truthy.\<close>

definition isPoolInstantiated :: "client \<Rightarrow> address \<Rightarrow> js_error + bool" where
  "isPoolInstantiated c tok =
     (case opt_ledger c (\<lambda>l. rd_poolToken l tok) of
        Inl e \<Rightarrow> Inl e
      | Inr None \<Rightarrow> Inr True
      | Inr (Some d) \<Rightarrow> if d \<noteq> [] \<and> d = ZERO_ADDRESS then Inr False else Inr True)"

definition getToken :: "client \<Rightarrow> address \<Rightarrow> js_error + Token" where
  "getToken c tok =
     catch_wrap ''Error fetching token data: ''
       (await (opt_ledger c (\<lambda>l. erc20_decimals l tok)) (\<lambda>d.
        await (opt_ledger c (\<lambda>l. erc20_symbol l tok)) (\<lambda>s.
        await (opt_ledger c (\<lambda>l. erc20_name l tok)) (\<lambda>n.
          Inr \<lparr>address = tok, symbol = s, name = n, decimals = d\<rparr>))))"


definition getReserves_read :: "client \<Rightarrow> Token \<Rightarrow> js_error + Reserve" where
  "getReserves_read c tok =
     await (with_ledger c ''readContract'' (\<lambda>l. rd_reserves l (address tok))) (\<lambda>data.
       case data of
         None \<Rightarrow> Inr \<lparr>tokenReserve = ''0'', ethReserve = ''0''\<rparr>
       | Some (d0, d1) \<Rightarrow>
           Inr \<lparr>tokenReserve = bigint_toString d1, ethReserve = bigint_toString d0\<rparr>)"

definition getReserves :: "(int \<rightharpoonup> address) \<Rightarrow> client \<Rightarrow> Token \<Rightarrow> js_error + Reserve" where
  "getReserves addrs c tok =
     safeRead addrs c ''getReserves'' \<lparr>tokenReserve = ''0'', ethReserve = ''0''\<rparr> (getReserves_read c tok)"







record PoolFeesEvent =
  timestamp :: number
  fee :: string

definition getPoolFeeEvents :: "(int \<rightharpoonup> address) \<Rightarrow> client \<Rightarrow> Token \<Rightarrow> int \<Rightarrow> int
    \<Rightarrow> js_error + PoolFeesEvent list" where
  "getPoolFeeEvents addrs c tok startIndex endIndex =
     safeRead addrs c ''getPoolFeeEvents'' []
       (await (with_ledger c ''readContract'' (\<lambda>l. rd_getPoolFeeList l (address tok) startIndex endIndex))
          (\<lambda>data.
             case data of
               None \<Rightarrow> Inr []
             | Some items \<Rightarrow>
                 Inr (map (\<lambda>(t, f). \<lparr>timestamp = num_mul (fl (of_int t)) (Finite 1000),
                                      fee = bigint_toString f\<rparr>) items)))"

section \<open>Event logs\<close>

definition getBlockTimestamp :: "client \<Rightarrow> int \<Rightarrow> js_error + int" where
  "getBlockTimestamp c blockNum =
     catch_wrap ''Error fetching block timestamp: ''
       (await (opt_ledger c (\<lambda>l. getBlock l blockNum)) (\<lambda>block.
          case block of
            None \<Rightarrow> Inl (undefined_access ''timestamp'')
          | Some t \<Rightarrow> Inr (t * 1000)))"

text \<open>\<^verbatim>\<open>logs || []\<close>.\<close>

definition or_empty :: "'a list option \<Rightarrow> 'a list" where
  "or_empty logs = (case logs of None \<Rightarrow> [] | Some xs \<Rightarrow> xs)"

record BuyTrade =
  token :: Token
  buyPrice :: string
  updatedBuyPrice :: string
  ethAmount :: string
  sellPrice :: string
  timestamp :: int

definition buy_trade :: "BuyTradeLog \<Rightarrow> Token \<Rightarrow> int \<Rightarrow> BuyTrade" where
  "buy_trade lg tok ts =
     \<lparr>token = tok,
      buyPrice = bigint_toString (BuyTradeLog.tradeBuyPrice lg),
      updatedBuyPrice = bigint_toString (BuyTradeLog.updatedBuyPrice lg),
      ethAmount = bigint_toString (BuyTradeLog.amountEther lg),
      sellPrice = bigint_toString (BuyTradeLog.sellPrice lg),
      timestamp = ts\<rparr>"

definition getBuyTradeEventLogs :: "(int \<rightharpoonup> address) \<Rightarrow> client \<Rightarrow> int \<Rightarrow> int \<Rightarrow> Token option
    \<Rightarrow> address option \<Rightarrow> js_error + BuyTrade list" where
  "getBuyTradeEventLogs addrs c fromBlock toBlock tok user =
     safeRead addrs c ''getBuyTradeEventLogs'' []
       (await (with_ledger c ''getLogs''
                 (\<lambda>l. getLogs_BuyTrade l fromBlock toBlock (map_option address tok) user)) (\<lambda>logs.
        await (Promise_all (map (\<lambda>lg. getBlockTimestamp c (BuyTradeLog.blockNumber lg)) (or_empty logs)))
          (\<lambda>timestamps.
             case tok of
               None \<Rightarrow>
                 await (Promise_all (map (\<lambda>lg. getToken c (BuyTradeLog.token lg)) (or_empty logs)))
                   (\<lambda>tokens.
                      Inr (map (\<lambda>(lg, t, ts). buy_trade lg t ts)
                             (zip (or_empty logs) (zip tokens timestamps))))
             | Some t \<Rightarrow>
                 Inr (map (\<lambda>(lg, ts). buy_trade lg t ts) (zip (or_empty logs) timestamps)))))"

record SellTrade =
  token :: Token
  sellPrice :: string
  updatedSellPrice :: string
  ethAmount :: string
  buyPrice :: string
  timestamp :: int

definition sell_trade :: "SellTradeLog \<Rightarrow> Token \<Rightarrow> int \<Rightarrow> SellTrade" where
  "sell_trade lg tok ts =
     \<lparr>token = tok,
      sellPrice = bigint_toString (SellTradeLog.tradeSellPrice lg),
      updatedSellPrice = bigint_toString (SellTradeLog.updatedSellPrice lg),
      ethAmount = bigint_toString (SellTradeLog.amountEther lg),
      buyPrice = bigint_toString (SellTradeLog.buyPrice lg),
      timestamp = ts\<rparr>"

definition getSellTradeEventLogs :: "(int \<rightharpoonup> address) \<Rightarrow> client \<Rightarrow> int \<Rightarrow> int \<Rightarrow> Token option
    \<Rightarrow> address option \<Rightarrow> js_error + SellTrade list" where
  "getSellTradeEventLogs addrs c fromBlock toBlock tok user =
     safeRead addrs c ''getSellTradeEventLogs'' []
       (await (with_ledger c ''getLogs''
                 (\<lambda>l. getLogs_SellTrade l fromBlock toBlock (map_option address tok) user)) (\<lambda>logs.
        await (Promise_all (map (\<lambda>lg. getBlockTimestamp c (SellTradeLog.blockNumber lg)) (or_empty logs)))
          (\<lambda>timestamps.
             case tok of
               None \<Rightarrow>
                 await (Promise_all (map (\<lambda>lg. getToken c (SellTradeLog.token lg)) (or_empty logs)))
                   (\<lambda>tokens.
                      Inr (map (\<lambda>(lg, t, ts). sell_trade lg t ts)
                             (zip (or_empty logs) (zip tokens timestamps))))
             | Some t \<Rightarrow>
                 Inr (map (\<lambda>(lg, ts). sell_trade lg t ts) (zip (or_empty logs) timestamps)))))"

text \<open>
  A swap record. The field \<open>token\<close> is present only in the records of the by-trader
  query, where it is the (optional) token argument.
\<close>

record SwapTrade =
  token :: "Token option"
  tokenIn :: Token
  tokenOut :: Token
  amountIn :: string
  amountOut :: string
  sellPrice :: string
  buyPrice :: string
  updatedBuyPrice :: string
  updatedSellPrice :: string
  timestamp :: int

definition swap_trade :: "SwapTradeLog \<Rightarrow> Token option \<Rightarrow> Token \<Rightarrow> Token \<Rightarrow> int \<Rightarrow> SwapTrade" where
  "swap_trade lg tok tin tout ts =
     \<lparr>token = tok, tokenIn = tin, tokenOut = tout,
      amountIn = bigint_toString (amountTokenSold lg),
      amountOut = bigint_toString (amountTokenBought lg),
      sellPrice = bigint_toString (SwapTradeLog.tradeSellPrice lg),
      buyPrice = bigint_toString (SwapTradeLog.tradeBuyPrice lg),
      updatedBuyPrice = bigint_toString (SwapTradeLog.updatedBuyPrice lg),
      updatedSellPrice = bigint_toString (SwapTradeLog.updatedSellPrice lg),
      timestamp = ts\<rparr>"

definition swapInEventLogs :: "(int \<rightharpoonup> address) \<Rightarrow> client \<Rightarrow> int \<Rightarrow> int \<Rightarrow> Token
    \<Rightarrow> js_error + SwapTrade list" where
  "swapInEventLogs addrs c fromBlock toBlock tin =
     safeRead addrs c ''swapInEventLogs'' []
       (await (with_ledger c ''getLogs''
                 (\<lambda>l. getLogs_SwapTrade l fromBlock toBlock (Some (address tin)) None None)) (\<lambda>logs.
        await (Promise_all (map (\<lambda>lg. getBlockTimestamp c (SwapTradeLog.blockNumber lg)) (or_empty logs)))
          (\<lambda>timestamps.
        await (Promise_all (map (\<lambda>lg. getToken c (tokenBought lg)) (or_empty logs))) (\<lambda>tokensOut.
          Inr (map (\<lambda>(lg, tout, ts). swap_trade lg None tin tout ts)
                 (zip (or_empty logs) (zip tokensOut timestamps)))))))"

definition swapOutEventLogs :: "(int \<rightharpoonup> address) \<Rightarrow> client \<Rightarrow> int \<Rightarrow> int \<Rightarrow> Token
    \<Rightarrow> js_error + SwapTrade list" where
  "swapOutEventLogs addrs c fromBlock toBlock tout =
     safeRead addrs c ''swapOutEventLogs'' []
       (await (with_ledger c ''getLogs''
                 (\<lambda>l. getLogs_SwapTrade l fromBlock toBlock None (Some (address tout)) None)) (\<lambda>logs.
        await (Promise_all (map (\<lambda>lg. getBlockTimestamp c (SwapTradeLog.blockNumber lg)) (or_empty logs)))
          (\<lambda>timestamps.
        await (Promise_all (map (\<lambda>lg. getToken c (tokenSold lg)) (or_empty logs))) (\<lambda>tokensIn.
          Inr (map (\<lambda>(lg, tin, ts). swap_trade lg None tin tout ts)
                 (zip (or_empty logs) (zip tokensIn timestamps)))))))"

text \<open>
  \<^verbatim>\<open>getSwapTradeEventLogs\<close>. Without a trader the token argument is asserted present
  (\<^verbatim>\<open>token!\<close>) and its \<^verbatim>\<open>address\<close> is read inside the two inner queries, after their guard.
\<close>

definition getSwapTradeEventLogs :: "(int \<rightharpoonup> address) \<Rightarrow> client \<Rightarrow> int \<Rightarrow> int \<Rightarrow> Token option
    \<Rightarrow> address option \<Rightarrow> js_error + SwapTrade list" where
  "getSwapTradeEventLogs addrs c fromBlock toBlock tok user =
     safeRead addrs c ''getSwapTradeEventLogs'' []
       (case user of
          Some u \<Rightarrow>
            await (with_ledger c ''getLogs''
                     (\<lambda>l. getLogs_SwapTrade l fromBlock toBlock None None (Some u))) (\<lambda>logs.
            await (Promise_all (map (\<lambda>lg. getBlockTimestamp c (SwapTradeLog.blockNumber lg)) (or_empty logs)))
              (\<lambda>timestamps.
            await (Promise_all (map (\<lambda>lg. getToken c (tokenSold lg)) (or_empty logs))) (\<lambda>tokensIn.
            await (Promise_all (map (\<lambda>lg. getToken c (tokenBought lg)) (or_empty logs))) (\<lambda>tokensOut.
              Inr (map (\<lambda>(lg, tin, tout, ts). swap_trade lg tok tin tout ts)
                     (zip (or_empty logs) (zip tokensIn (zip tokensOut timestamps))))))))
        | None \<Rightarrow>
            (case tok of
               None \<Rightarrow>
                 await (ensureCanRead addrs c) (\<lambda>u. Inl (undefined_access ''address''))
             | Some t \<Rightarrow>
                 await (swapInEventLogs addrs c fromBlock toBlock t) (\<lambda>swapInTrades.
                 await (swapOutEventLogs addrs c fromBlock toBlock t) (\<lambda>swapOutTrades.
                   Inr (swapInTrades @ swapOutTrades)))))"

subsection \<open>The block a day ago\<close>




subsection \<open>The 24-hour volume\<close>

definition BLOCK_BATCH_SIZE :: int where
  "BLOCK_BATCH_SIZE = 999"

text \<open>One batch: the three log queries over the blocks \<open>currentBlock .. batchEndBlock\<close>.\<close>

definition fetch_batch :: "(int \<rightharpoonup> address) \<Rightarrow> client \<Rightarrow> Token \<Rightarrow> int \<Rightarrow> int
    \<Rightarrow> js_error + (BuyTrade list \<times> SellTrade list \<times> SwapTrade list)" where
  "fetch_batch addrs c tok currentBlock batchEndBlock =
     await (getBuyTradeEventLogs addrs c currentBlock batchEndBlock (Some tok) None) (\<lambda>batchBuyLogs.
     await (getSellTradeEventLogs addrs c currentBlock batchEndBlock (Some tok) None) (\<lambda>batchSellLogs.
     await (getSwapTradeEventLogs addrs c currentBlock batchEndBlock (Some tok) None) (\<lambda>batchSwapLogs.
       Inr (batchBuyLogs, batchSellLogs, batchSwapLogs))))"

text \<open>
  The batch loop of \<^verbatim>\<open>get24hVolume\<close>. Besides the three accumulators the model keeps the
  list of the block ranges it has asked for, in the order of the requests.
\<close>

function batch_scan :: "(int \<rightharpoonup> address) \<Rightarrow> client \<Rightarrow> Token \<Rightarrow> int \<Rightarrow> int
    \<Rightarrow> (int \<times> int) list \<times> BuyTrade list \<times> SellTrade list \<times> SwapTrade list
    \<Rightarrow> js_error + ((int \<times> int) list \<times> BuyTrade list \<times> SellTrade list \<times> SwapTrade list)" where
  "batch_scan addrs c tok currentBlock targetBlock (batches, buyLogs, sellLogs, swapLogs) =
     (if currentBlock < targetBlock then
        (case fetch_batch addrs c tok currentBlock (min (currentBlock + BLOCK_BATCH_SIZE) targetBlock) of
           Inl e \<Rightarrow> Inl e
         | Inr (batchBuyLogs, batchSellLogs, batchSwapLogs) \<Rightarrow>
             batch_scan addrs c tok (min (currentBlock + BLOCK_BATCH_SIZE) targetBlock + 1) targetBlock
               (batches @ [(currentBlock, min (currentBlock + BLOCK_BATCH_SIZE) targetBlock)],
                buyLogs @ batchBuyLogs, sellLogs @ batchSellLogs, swapLogs @ batchSwapLogs))
      else Inr (batches, buyLogs, sellLogs, swapLogs))"
  by pat_completeness auto
termination
  by (relation "measure (\<lambda>(addrs, c, tok, currentBlock, targetBlock, acc). nat (targetBlock - currentBlock))")
    (auto simp: BLOCK_BATCH_SIZE_def)

declare batch_scan.simps [simp del]





section \<open>Derived metrics and the pool snapshot\<close>




text \<open>
  \<^verbatim>\<open>getYield\<close>. On an empty list \<^verbatim>\<open>feeEvents[feeEvents.length - 1]\<close> is \<^verbatim>\<open>undefined\<close> and
  reading its \<^verbatim>\<open>timestamp\<close> throws.
\<close>

definition getYield :: "PoolFeesEvent list \<Rightarrow> string \<Rightarrow> js_error + number" where
  "getYield feeEvents totalLiquidity =
     (let totalFees = foldl (\<lambda>acc ev. num_add acc (Number (fee ev))) (Finite 0) feeEvents
      in if feeEvents = [] then Inl (undefined_access ''timestamp'')
         else
           let totalTime = num_div
                             (num_sub (PoolFeesEvent.timestamp (last feeEvents))
                                      (PoolFeesEvent.timestamp (hd feeEvents)))
                             (Finite (60 * 60 * 24))
           in Inr (num_div totalFees (num_mul totalTime (Number totalLiquidity))))"

record Pool =
  token :: Token
  reserve :: Reserve
  lpToken :: LiquidityPoolToken
  buyPrice :: string
  sellPrice :: string
  avgPrice :: string
  tokenRatio :: string
  volume24h :: string
  totalLiquidty :: string
  apr :: number
  lastExchangeTs :: number
  lastUpdated :: int




section \<open>Mutations\<close>

text \<open>
  The state a mutation runs in: the client object and the trace of the calls issued to
  the wallet so far. A call of \<^verbatim>\<open>this.writeContract\<close> is answered by the wallet and joins
  the trace.
\<close>

record world =
  self :: client
  calls :: "write_call list"

definition call_wallet :: "write_call \<Rightarrow> world \<Rightarrow> (js_error + string) \<times> world" where
  "call_wallet w s = (writeContract (self s) (calls s) w, s\<lparr>calls := calls s @ [w]\<rparr>)"

definition approve_call :: "client \<Rightarrow> address \<Rightarrow> int \<Rightarrow> write_call" where
  "approve_call c tok amount = WriteCall tok ''approve'' [contractAddress c, bigint_toString amount] None"

definition approveToken :: "address \<Rightarrow> int \<Rightarrow> world \<Rightarrow> (js_error + unit) \<times> world" where
  "approveToken tok amount s =
     (case call_wallet (approve_call (self s) tok amount) s of
        (Inl e, s') \<Rightarrow> (Inl (Error (''Token approval failed: '' @ message_of e)), s')
      | (Inr h, s') \<Rightarrow> (Inr (), s'))"

record DepositRequest =
  token :: Token
  tokenAmount :: string
  ethAmount :: string

record DepositResult =
  success :: bool
  depositRequest :: DepositRequest
  txHash :: string
  timestamp :: int
  error :: string

definition deposit_failed :: "js_error \<Rightarrow> js_error" where
  "deposit_failed e = Error (''Deposit failed: '' @ message_of e)"

definition deposit_call :: "client \<Rightarrow> DepositRequest \<Rightarrow> int \<Rightarrow> write_call" where
  "deposit_call c depositReq v =
     WriteCall (contractAddress c) ''deposit'' [address (token depositReq)] (Some v)"

text \<open>
  \<^verbatim>\<open>deposit\<close>. \<open>now\<close> is what \<^verbatim>\<open>Date.now()\<close> returns. Each \<^verbatim>\<open>BigInt\<close> conversion is an
  argument of the call it feeds, so it runs (and may throw) just before that call; every
  throw inside the \<^verbatim>\<open>try\<close> block is caught and wrapped.
\<close>

definition deposit :: "DepositRequest \<Rightarrow> int \<Rightarrow> world \<Rightarrow> (js_error + DepositResult) \<times> world" where
  "deposit depositReq now s =
     (case BigInt (tokenAmount depositReq) of
        Inl e \<Rightarrow> (Inl (deposit_failed e), s)
      | Inr amount \<Rightarrow>
          (case approveToken (address (token depositReq)) amount s of
             (Inl e, s1) \<Rightarrow> (Inl (deposit_failed e), s1)
           | (Inr u, s1) \<Rightarrow>
               (case BigInt (ethAmount depositReq) of
                  Inl e \<Rightarrow> (Inl (deposit_failed e), s1)
                | Inr v \<Rightarrow>
                    (case call_wallet (deposit_call (self s1) depositReq v) s1 of
                       (Inl e, s2) \<Rightarrow> (Inl (deposit_failed e), s2)
                     | (Inr h, s2) \<Rightarrow>
                         (Inr \<lparr>success = True, depositRequest = depositReq, txHash = h,
                               timestamp = now, error = []\<rparr>, s2)))))"

text \<open>The function name of a wallet call.\<close>

fun functionName :: "write_call \<Rightarrow> string" where
  "functionName (WriteCall a f xs v) = f"

section \<open>Fixtures\<close>

text \<open>
  Concrete inputs for the examples below: a ledger whose every read throws the given
  error, an address table with one chain, a client on that chain, two wallets, a token
  and a deposit request.
\<close>

definition failing_ledger :: "js_error \<Rightarrow> ledger" where
  "failing_ledger e =
     \<lparr>rd_poolToken = (\<lambda>a. Inl e), rd_reserves = (\<lambda>a. Inl e), rd_priceBuy = (\<lambda>a. Inl e),
      rd_priceSell = (\<lambda>a. Inl e), rd_tokenPerETHRatio = (\<lambda>a. Inl e), rd_pools = (\<lambda>a. Inl e),
      rd_getPoolFeeEventsCount = (\<lambda>a. Inl e), rd_getPoolFeeList = (\<lambda>a i j. Inl e),
      erc20_decimals = (\<lambda>a. Inl e), erc20_symbol = (\<lambda>a. Inl e), erc20_name = (\<lambda>a. Inl e),
      erc20_totalSupply = (\<lambda>a. Inl e), erc20_balanceOf = (\<lambda>a u. Inl e),
      getBlockNumber = Inl e, getBlock = (\<lambda>b. Inl e),
      getLogs_BuyTrade = (\<lambda>f t a u. Inl e), getLogs_SellTrade = (\<lambda>f t a u. Inl e),
      getLogs_SwapTrade = (\<lambda>f t a b u. Inl e)\<rparr>"

definition one_chain :: "int \<rightharpoonup> address" where
  "one_chain = [63 \<mapsto> ''0xC0'']"

definition refusing_wallet :: wallet where
  "refusing_wallet tr w = Inl (Error ''User rejected the request.'')"

definition accepting_wallet :: wallet where
  "accepting_wallet tr w = Inr ''0xhash''"

definition test_client :: "wallet \<Rightarrow> ledger \<Rightarrow> client" where
  "test_client wc l = \<lparr>contractAddress = ''0xC0'', writeContract = wc, publicClient = Some l, chainId = 63\<rparr>"

definition test_token :: Token where
  "test_token = \<lparr>address = ''0xT1'', symbol = Some ''TKN'', name = Some ''Token'', decimals = Some 18\<rparr>"

definition test_request :: DepositRequest where
  "test_request = \<lparr>token = test_token, tokenAmount = ''5'', ethAmount = ''7''\<rparr>"


text \<open>
  A synthetic log set: a chain of blocks \<open>0 .. latest\<close> (block \<open>b\<close> stamped \<open>b\<close> seconds)
  whose only events are the given buy trades. A log query answers the logs of its block
  range that pass its filter, in the order of the set.
\<close>

definition log_ledger :: "BuyTradeLog list \<Rightarrow> int \<Rightarrow> ledger" where
  "log_ledger logs latest =
     (failing_ledger (Error ''unavailable''))
       \<lparr>getBlockNumber := Inr latest,
        getBlock := (\<lambda>b. Inr (Some b)),
        getLogs_BuyTrade := (\<lambda>f t a u.
          Inr (Some (filter (\<lambda>lg. f \<le> BuyTradeLog.blockNumber lg \<and> BuyTradeLog.blockNumber lg \<le> t \<and>
                               (a = None \<or> a = Some (BuyTradeLog.token lg)) \<and>
                               (u = None \<or> u = Some (BuyTradeLog.trader lg))) logs))),
        getLogs_SellTrade := (\<lambda>f t a u. Inr (Some [])),
        getLogs_SwapTrade := (\<lambda>f t a b u. Inr (Some []))\<rparr>"

definition buy_at :: "int \<Rightarrow> BuyTradeLog" where
  "buy_at b =
     \<lparr>BuyTradeLog.blockNumber = b, BuyTradeLog.token = ''0xT1'', BuyTradeLog.trader = ''0xU1'',
      BuyTradeLog.amountEther = 7, BuyTradeLog.amountToken = 3, BuyTradeLog.tradeBuyPrice = 2,
      BuyTradeLog.updatedBuyPrice = 2, BuyTradeLog.sellPrice = 1\<rparr>"

text \<open>A pool with the given fee events (timestamp in seconds, fee) and nothing else.\<close>

definition fee_ledger :: "(int \<times> int) list \<Rightarrow> ledger" where
  "fee_ledger items =
     (failing_ledger (Error ''unavailable''))
       \<lparr>rd_getPoolFeeEventsCount := (\<lambda>a. Inr (Some (int (length items)))),
        rd_getPoolFeeList := (\<lambda>a i j. Inr (Some items))\<rparr>"




section \<open>The specification's formulas\<close>

text \<open>
  The yield as the specification words it: the sum of the fee amounts of a window divided
  by the product of the window's duration in days and the total liquidity. The events are
  the contract's, a timestamp in seconds and a fee each.
\<close>

definition yield_spec :: "(int \<times> int) list \<Rightarrow> int \<Rightarrow> rat" where
  "yield_spec items totalLiquidity =
     of_int (sum_list (map snd items)) /
       (of_int (fst (last items) - fst (hd items)) / (60 * 60 * 24) * of_int totalLiquidity)"



section \<open>Properties\<close>

subsection \<open>Sequencing\<close>

lemma await_Inl [simp]: "await (Inl e) f = Inl e"
  by (simp add: await_def)

lemma await_Inr [simp]: "await (Inr x) f = f x"
  by (simp add: await_def)


lemma catch_wrap_Inl [simp]: "catch_wrap p (Inl e) = Inl (Error (p @ message_of e))"
  by (simp add: catch_wrap_def)

lemma catch_wrap_Inr [simp]: "catch_wrap p (Inr x) = Inr x"
  by (simp add: catch_wrap_def)


lemma with_ledger_Some [simp]: "publicClient c = Some l \<Longrightarrow> with_ledger c p f = f l"
  by (simp add: with_ledger_def)

lemma opt_ledger_Some [simp]: "publicClient c = Some l \<Longrightarrow> opt_ledger c f = f l"
  by (simp add: opt_ledger_def)

lemma opt_ledger_None [simp]: "publicClient c = None \<Longrightarrow> opt_ledger c f = Inr None"
  by (simp add: opt_ledger_def)

lemma publicClient_test_client [simp]: "publicClient (test_client wc l) = Some l"
  by (simp add: test_client_def)

subsection \<open>The safe read wrapper\<close>

lemma ensureCanRead_test_client: "ensureCanRead one_chain (test_client wc l) = Inr ()"
  by (simp add: ensureCanRead_def one_chain_def test_client_def)

lemma expected_no_data:
  "isExpectedReadFailure (Error ''The contract function \"reserves\" returned no data (\"0x\").'')"
  by code_simp

lemma fatal_unknown_rpc: "\<not> isExpectedReadFailure (Error ''unknown RPC error'')"
  by code_simp

text \<open>
  Claim C1. Once the connection guard has passed, a wrapped read that throws an error the
  classifier recognises makes \<^verbatim>\<open>safeRead\<close> return the fallback it was given, and a read
  that throws any other error makes it rethrow that very error. For \<^verbatim>\<open>getReserves\<close> the
  fallback is the reserve with both fields \<^verbatim>\<open>"0"\<close>.
\<close>

theorem safeRead_fallback_or_rethrow:
  assumes "ensureCanRead addrs c = Inr ()"
  shows "(isExpectedReadFailure e \<longrightarrow> safeRead addrs c nm fb (Inl e) = Inr fb) \<and>
         (\<not> isExpectedReadFailure e \<longrightarrow> safeRead addrs c nm fb (Inl e) = Inl e) \<and>
         (getReserves_read c tok = Inl e \<and> isExpectedReadFailure e \<longrightarrow>
            getReserves addrs c tok = Inr \<lparr>tokenReserve = ''0'', ethReserve = ''0''\<rparr>) \<and>
         (getReserves_read c tok = Inl e \<and> \<not> isExpectedReadFailure e \<longrightarrow>
            getReserves addrs c tok = Inl e)"
  using assms by (simp add: safeRead_def getReserves_def)

theorem safeRead_fallback_or_rethrow_witness:
  "getReserves one_chain
     (test_client accepting_wallet
        (failing_ledger (Error ''The contract function \"reserves\" returned no data (\"0x\").'')))
     test_token = Inr \<lparr>tokenReserve = ''0'', ethReserve = ''0''\<rparr> \<and>
   getReserves one_chain (test_client accepting_wallet (failing_ledger (Error ''unknown RPC error'')))
     test_token = Inl (Error ''unknown RPC error'')"
proof -
  let ?e1 = "Error ''The contract function \"reserves\" returned no data (\"0x\").''"
  let ?e2 = "Error ''unknown RPC error''"
  have r: "getReserves_read (test_client accepting_wallet (failing_ledger e)) test_token = Inl e" for e
    by (simp add: getReserves_read_def failing_ledger_def)
  show ?thesis
    using safeRead_fallback_or_rethrow [where addrs = one_chain and e = ?e1 and tok = test_token
             and nm = "[]" and fb = True and c = "test_client accepting_wallet (failing_ledger ?e1)"]
          safeRead_fallback_or_rethrow [where addrs = one_chain and e = ?e2 and tok = test_token
             and nm = "[]" and fb = True and c = "test_client accepting_wallet (failing_ledger ?e2)"]
          ensureCanRead_test_client
          r expected_no_data fatal_unknown_rpc
    by simp
qed

subsection \<open>Construction\<close>

text \<open>
  Claim C8. When the chain identifier the constructor settles on (the one given, or 63
  when none is given) has no entry in the address table, construction throws an error
  whose message is \<^verbatim>\<open>UNSUPPORTED_CHAIN\<close>, and it has issued no network call.
\<close>

theorem constructor_unsupported_chain:
  assumes "addrs (case cid of None \<Rightarrow> 63 | Some n \<Rightarrow> n) = None"
  shows "ContractClient addrs wc pc cid = (Inl (Error ''UNSUPPORTED_CHAIN''), [])"
  using assms by (simp add: ContractClient_def UNSUPPORTED_CHAIN_def)

theorem constructor_unsupported_chain_witness:
  "ContractClient one_chain accepting_wallet None (Some 1) = (Inl (Error ''UNSUPPORTED_CHAIN''), [])"
  using constructor_unsupported_chain [of one_chain "Some 1" accepting_wallet None]
  by (simp add: one_chain_def)

subsection \<open>Pool instantiation\<close>

text \<open>
  Claim C9. When the \<^verbatim>\<open>poolToken\<close> read resolves to an address, \<^verbatim>\<open>isPoolInstantiated\<close>
  returns \<^verbatim>\<open>false\<close> if that address is the all-zero address and \<^verbatim>\<open>true\<close> for any other
  address; and it returns \<^verbatim>\<open>false\<close> in no other situation.
\<close>

theorem isPoolInstantiated_iff_zero_address:
  "(\<forall>l a. publicClient c = Some l \<and> rd_poolToken l tok = Inr (Some a) \<longrightarrow>
      isPoolInstantiated c tok = Inr (a \<noteq> ZERO_ADDRESS)) \<and>
   ((isPoolInstantiated c tok = Inr False) =
      (\<exists>l. publicClient c = Some l \<and> rd_poolToken l tok = Inr (Some ZERO_ADDRESS)))"
  by (cases "publicClient c") (auto simp: isPoolInstantiated_def ZERO_ADDRESS_def split: option.splits sum.splits)

theorem isPoolInstantiated_iff_zero_address_witness:
  "isPoolInstantiated
     (test_client accepting_wallet
        ((failing_ledger (Error ''x''))\<lparr>rd_poolToken := (\<lambda>a. Inr (Some ''0x0000000000000000000000000000000000000000''))\<rparr>))
     ''0xT1'' = Inr False \<and>
   isPoolInstantiated
     (test_client accepting_wallet
        ((failing_ledger (Error ''x''))\<lparr>rd_poolToken := (\<lambda>a. Inr (Some ''0x00000000000000000000000000000000000000A1''))\<rparr>))
     ''0xT1'' = Inr True"
  using isPoolInstantiated_iff_zero_address
          [of "test_client accepting_wallet
                 ((failing_ledger (Error ''x''))\<lparr>rd_poolToken := (\<lambda>a. Inr (Some ''0x0000000000000000000000000000000000000000''))\<rparr>)"
              "''0xT1''"]
        isPoolInstantiated_iff_zero_address
          [of "test_client accepting_wallet
                 ((failing_ledger (Error ''x''))\<lparr>rd_poolToken := (\<lambda>a. Inr (Some ''0x00000000000000000000000000000000000000A1''))\<rparr>)"
              "''0xT1''"]
  by (simp add: test_client_def failing_ledger_def ZERO_ADDRESS_def)

subsection \<open>Deposit\<close>

lemma approveToken_calls:
  "snd (approveToken tok amount s) = s\<lparr>calls := calls s @ [approve_call (self s) tok amount]\<rparr>"
  by (simp add: approveToken_def call_wallet_def split: sum.splits)

lemma approveToken_throws_iff:
  "(fst (approveToken tok amount s) = Inl e') =
   (\<exists>e. writeContract (self s) (calls s) (approve_call (self s) tok amount) = Inl e \<and>
        e' = Error (''Token approval failed: '' @ message_of e))"
  by (auto simp: approveToken_def call_wallet_def split: sum.splits)

text \<open>
  Claim C7. When the approval phase of a deposit throws, the operation throws an error
  whose message starts with \<^verbatim>\<open>Deposit failed: \<close>, the only call issued to the wallet is the
  approval (no \<^verbatim>\<open>deposit\<close> call), and the client is as it was. Whenever \<^verbatim>\<open>deposit\<close>
  returns a result, its \<^verbatim>\<open>success\<close> flag is set and both wallet calls, the approval and then
  the deposit, were issued and answered.
\<close>

theorem deposit_approval_failure:
  "(\<forall>amount e s1. BigInt (tokenAmount req) = Inr amount \<and>
       approveToken (address (token req)) amount s = (Inl e, s1) \<longrightarrow>
       deposit req now s = (Inl (Error (''Deposit failed: '' @ message_of e)), s1) \<and>
       self s1 = self s \<and>
       calls s1 = calls s @ [approve_call (self s) (address (token req)) amount] \<and>
       functionName (approve_call (self s) (address (token req)) amount) \<noteq> ''deposit'') \<and>
   (\<forall>r s2. deposit req now s = (Inr r, s2) \<longrightarrow>
       success r \<and> self s2 = self s \<and>
       (\<exists>amount v h1 h2.
          BigInt (tokenAmount req) = Inr amount \<and> BigInt (ethAmount req) = Inr v \<and>
          calls s2 = calls s @ [approve_call (self s) (address (token req)) amount,
                                deposit_call (self s) req v] \<and>
          writeContract (self s) (calls s) (approve_call (self s) (address (token req)) amount) = Inr h1 \<and>
          writeContract (self s)
            (calls s @ [approve_call (self s) (address (token req)) amount])
            (deposit_call (self s) req v) = Inr h2 \<and>
          txHash r = h2))"
proof (intro conjI allI impI)
  fix amount e s1
  assume h: "BigInt (tokenAmount req) = Inr amount \<and>
       approveToken (address (token req)) amount s = (Inl e, s1)"
  then have s1: "s1 = s\<lparr>calls := calls s @ [approve_call (self s) (address (token req)) amount]\<rparr>"
    using approveToken_calls [of "address (token req)" amount s] by simp
  show "deposit req now s = (Inl (Error (''Deposit failed: '' @ message_of e)), s1)"
    using h by (simp add: deposit_def deposit_failed_def)
  show "self s1 = self s" using s1 by simp
  show "calls s1 = calls s @ [approve_call (self s) (address (token req)) amount]"
    using s1 by simp
  show "functionName (approve_call (self s) (address (token req)) amount) \<noteq> ''deposit''"
    by (simp add: approve_call_def)
next
  fix r s2
  assume d: "deposit req now s = (Inr r, s2)"
  then obtain amount where a: "BigInt (tokenAmount req) = Inr amount"
    by (auto simp: deposit_def split: sum.splits)
  obtain x s1 where ap: "approveToken (address (token req)) amount s = (x, s1)"
    by (cases "approveToken (address (token req)) amount s") auto
  have s1: "s1 = s\<lparr>calls := calls s @ [approve_call (self s) (address (token req)) amount]\<rparr>"
    using approveToken_calls [of "address (token req)" amount s] ap by simp
  from d a ap obtain u where x: "x = Inr u"
    by (cases x) (auto simp: deposit_def)
  from d a ap x obtain v where v: "BigInt (ethAmount req) = Inr v"
    by (auto simp: deposit_def split: sum.splits)
  from ap x obtain h1 where
    h1: "writeContract (self s) (calls s) (approve_call (self s) (address (token req)) amount) = Inr h1"
    by (auto simp: approveToken_def call_wallet_def split: sum.splits)
  from d a ap x v s1 obtain h2 where
    h2: "writeContract (self s)
            (calls s @ [approve_call (self s) (address (token req)) amount])
            (deposit_call (self s) req v) = Inr h2"
    and r: "r = \<lparr>success = True, depositRequest = req, txHash = h2, timestamp = now, error = []\<rparr>"
    and s2: "s2 = s1\<lparr>calls := calls s1 @ [deposit_call (self s) req v]\<rparr>"
    by (auto simp: deposit_def call_wallet_def split: sum.splits)
  show "success r" using r by simp
  show "self s2 = self s" using s2 s1 by simp
  show "\<exists>amount v h1 h2.
          BigInt (tokenAmount req) = Inr amount \<and> BigInt (ethAmount req) = Inr v \<and>
          calls s2 = calls s @ [approve_call (self s) (address (token req)) amount,
                                deposit_call (self s) req v] \<and>
          writeContract (self s) (calls s) (approve_call (self s) (address (token req)) amount) = Inr h1 \<and>
          writeContract (self s)
            (calls s @ [approve_call (self s) (address (token req)) amount])
            (deposit_call (self s) req v) = Inr h2 \<and>
          txHash r = h2"
    using a v h1 h2 r s2 s1 by auto
qed

theorem deposit_approval_failure_witness:
  "deposit test_request 0 \<lparr>self = test_client refusing_wallet (failing_ledger (Error [])), calls = []\<rparr> =
     (Inl (Error ''Deposit failed: Token approval failed: User rejected the request.''),
      \<lparr>self = test_client refusing_wallet (failing_ledger (Error [])),
       calls = [WriteCall ''0xT1'' ''approve'' [''0xC0'', ''5''] None]\<rparr>) \<and>
   fst (deposit test_request 0 \<lparr>self = test_client accepting_wallet (failing_ledger (Error [])), calls = []\<rparr>) =
     Inr \<lparr>success = True, depositRequest = test_request, txHash = ''0xhash'', timestamp = 0, error = []\<rparr>"
proof -
  let ?s = "\<lparr>self = test_client refusing_wallet (failing_ledger (Error [])), calls = []\<rparr>"
  let ?s1 = "\<lparr>self = test_client refusing_wallet (failing_ledger (Error [])),
       calls = [WriteCall ''0xT1'' ''approve'' [''0xC0'', ''5''] None]\<rparr>"
  have b: "BigInt ''5'' = Inr 5" "BigInt ''7'' = Inr 7"
    by (simp_all add: BigInt_def trim_def is_space_def is_radix_literal_def radix_val_def
          digit_val_def lower_char_def)
  have a: "approveToken ''0xT1'' 5 ?s =
             (Inl (Error ''Token approval failed: User rejected the request.''), ?s1)"
    by (simp add: approveToken_def call_wallet_def approve_call_def test_client_def
          refusing_wallet_def bigint_toString_def digits.simps digit_char_def)
  have "deposit test_request 0 ?s =
          (Inl (Error (''Deposit failed: '' @ message_of (Error ''Token approval failed: User rejected the request.''))), ?s1)"
    using deposit_approval_failure [of test_request ?s 0] a b
    by (simp add: test_request_def test_token_def)
  moreover have "fst (deposit test_request 0 \<lparr>self = test_client accepting_wallet (failing_ledger (Error [])), calls = []\<rparr>) =
     Inr \<lparr>success = True, depositRequest = test_request, txHash = ''0xhash'', timestamp = 0, error = []\<rparr>"
    using b
    by (simp add: deposit_def approveToken_def call_wallet_def test_client_def
          accepting_wallet_def test_request_def test_token_def)
  ultimately show ?thesis by simp
qed

subsection \<open>The block a day ago\<close>






subsection \<open>Batched log scanning\<close>

lemma fetch_batch_log_ledger:
  "fetch_batch one_chain (test_client wc (log_ledger logs latest)) test_token f t =
     Inr (map (\<lambda>lg. buy_trade lg test_token (BuyTradeLog.blockNumber lg * 1000))
            (filter (\<lambda>lg. f \<le> BuyTradeLog.blockNumber lg \<and> BuyTradeLog.blockNumber lg \<le> t \<and>
                          BuyTradeLog.token lg = ''0xT1'') logs),
          [], [])"
proof -
  let ?c = "test_client wc (log_ledger logs latest)"
  have ts: "getBlockTimestamp ?c b = Inr (b * 1000)" for b
    by (simp add: getBlockTimestamp_def log_ledger_def)
  have all: "Promise_all (map (\<lambda>lg. getBlockTimestamp ?c (BuyTradeLog.blockNumber lg)) xs) =
             Inr (map (\<lambda>lg. BuyTradeLog.blockNumber lg * 1000) xs)" for xs
    by (induction xs) (simp_all add: ts)
  have zip: "map (\<lambda>(lg, ts). buy_trade lg test_token ts) (zip xs (map (\<lambda>lg. BuyTradeLog.blockNumber lg * 1000) xs)) =
             map (\<lambda>lg. buy_trade lg test_token (BuyTradeLog.blockNumber lg * 1000)) xs" for xs
    by (induction xs) simp_all
  have buy: "getBuyTradeEventLogs one_chain ?c f t (Some test_token) None =
     Inr (map (\<lambda>lg. buy_trade lg test_token (BuyTradeLog.blockNumber lg * 1000))
            (filter (\<lambda>lg. f \<le> BuyTradeLog.blockNumber lg \<and> BuyTradeLog.blockNumber lg \<le> t \<and>
                          BuyTradeLog.token lg = ''0xT1'') logs))"
    by (simp add: getBuyTradeEventLogs_def safeRead_def ensureCanRead_test_client all zip or_empty_def)
       (simp add: log_ledger_def test_token_def eq_commute)
  have sell: "getSellTradeEventLogs one_chain ?c f t (Some test_token) None = Inr []"
    by (simp add: getSellTradeEventLogs_def safeRead_def ensureCanRead_test_client or_empty_def log_ledger_def)
  have swin: "swapInEventLogs one_chain ?c f t test_token = Inr []"
    by (simp add: swapInEventLogs_def safeRead_def ensureCanRead_test_client or_empty_def log_ledger_def)
  have swout: "swapOutEventLogs one_chain ?c f t test_token = Inr []"
    by (simp add: swapOutEventLogs_def safeRead_def ensureCanRead_test_client or_empty_def log_ledger_def)
  have swap: "getSwapTradeEventLogs one_chain ?c f t (Some test_token) None = Inr []"
    by (simp add: getSwapTradeEventLogs_def safeRead_def ensureCanRead_test_client swin swout)
  show ?thesis by (simp add: fetch_batch_def buy sell swap)
qed

text \<open>
  Claim C3 at a range whose length is a whole number of batches. The log set holds one buy
  trade, in block 1000, and the range is \<open>0 .. 1000\<close>. The loop asks for the single batch
  \<open>0 .. 999\<close> and then stops, since \<open>1000 < 1000\<close> is false: block 1000 is never asked for,
  and the accumulated result is empty. One scan of the whole range returns the trade.
\<close>

theorem batch_scan_misses_last_block:
  "batch_scan one_chain (test_client accepting_wallet (log_ledger [buy_at 1000] 1000)) test_token 0 1000
     ([], [], [], []) = Inr ([(0, 999)], [], [], []) \<and>
   fetch_batch one_chain (test_client accepting_wallet (log_ledger [buy_at 1000] 1000)) test_token 0 1000 =
     Inr ([buy_trade (buy_at 1000) test_token 1000000], [], [])"
  by (simp add: batch_scan.simps fetch_batch_log_ledger BLOCK_BATCH_SIZE_def buy_at_def)

text \<open>
  The same defect on the shortest range: when \<open>fromBlock = toBlock\<close> the loop issues no
  request at all. And a range that needs three batches is scanned with exactly three
  requests, in block order, when its length is not a whole number of batches.
\<close>

lemma batch_scan_single_block:
  "batch_scan one_chain (test_client accepting_wallet (log_ledger [buy_at 5] 5)) test_token 5 5
     ([], [], [], []) = Inr ([], [], [], [])"
  by (simp add: batch_scan.simps)

lemma batch_scan_three_batches:
  "batch_scan one_chain (test_client accepting_wallet (log_ledger [buy_at 5, buy_at 1500, buy_at 2500] 2500))
     test_token 0 2500 ([], [], [], []) =
   Inr ([(0, 999), (1000, 1999), (2000, 2500)],
        [buy_trade (buy_at 5) test_token 5000, buy_trade (buy_at 1500) test_token 1500000,
         buy_trade (buy_at 2500) test_token 2500000], [], [])"
  by (simp add: batch_scan.simps fetch_batch_log_ledger BLOCK_BATCH_SIZE_def buy_at_def)

subsection \<open>Yield\<close>

lemma fee_events_example:
  "getPoolFeeEvents one_chain (test_client accepting_wallet (fee_ledger [(0, 1000), (86400, 1000)]))
     test_token 0 1 =
   Inr [\<lparr>PoolFeesEvent.timestamp = Finite 0, fee = ''1000''\<rparr>,
        \<lparr>PoolFeesEvent.timestamp = Finite 86400000, fee = ''1000''\<rparr>]"
  by code_simp

text \<open>
  Claim C4 on two fee events one day apart, each with fee 1000, and a total liquidity of 2.
  The client reads the events with their timestamps turned into milliseconds, and
  \<^verbatim>\<open>getYield\<close> divides the difference of the timestamps by the number of seconds in a day:
  it takes the window for 1000 days and returns 1, where the specification's formula gives
  \<open>2000 / (1 \<times> 2) = 1000\<close>.
\<close>

theorem getYield_window_in_milliseconds:
  "getPoolFeeEvents one_chain (test_client accepting_wallet (fee_ledger [(0, 1000), (86400, 1000)]))
     test_token 0 1 =
   Inr [\<lparr>PoolFeesEvent.timestamp = Finite 0, fee = ''1000''\<rparr>,
        \<lparr>PoolFeesEvent.timestamp = Finite 86400000, fee = ''1000''\<rparr>] \<and>
   getYield [\<lparr>PoolFeesEvent.timestamp = Finite 0, fee = ''1000''\<rparr>,
             \<lparr>PoolFeesEvent.timestamp = Finite 86400000, fee = ''1000''\<rparr>] ''2'' = Inr (Finite 1) \<and>
   yield_spec [(0, 1000), (86400, 1000)] 2 = 1000"
proof (intro conjI)
  show "getYield [\<lparr>PoolFeesEvent.timestamp = Finite 0, fee = ''1000''\<rparr>,
             \<lparr>PoolFeesEvent.timestamp = Finite 86400000, fee = ''1000''\<rparr>] ''2'' = Inr (Finite 1)"
    by code_simp
  show "yield_spec [(0, 1000), (86400, 1000)] 2 = 1000"
    by code_simp
qed (rule fee_events_example)

subsection \<open>Integer strings\<close>








subsection \<open>Monetary amounts\<close>










subsection \<open>Total liquidity\<close>




subsection \<open>The pool snapshot\<close>










end
